theory Spec2Isabelle
  imports Complex_Main "HOL-Library.Sublist"
begin

section \<open>Python strings\<close>

text \<open>
  A Python \<open>str\<close> is modelled as its UTF-8 byte sequence (\<open>string\<close>, a \<open>char list\<close>).
  Substring search, \<open>replace\<close>, \<open>split\<close> and \<open>join\<close> on valid UTF-8 agree with the
  same operations on code points. \<open>lower\<close> and \<open>strip\<close> are modelled on the ASCII range:
  bytes above 127 are left alone by \<open>py_lower\<close> and are never white space for \<open>py_strip\<close>
  (Python also lower-cases non-ASCII letters and strips non-ASCII white space such as
  U+00A0; every pattern of the program is ASCII).
\<close>

definition micro :: string where
  \<comment> \<open>U+00B5 MICRO SIGN, as written in the labels of the source\<close>
  "micro = [CHR 0xC2, CHR 0xB5]"

definition greek_mu :: string where
  \<comment> \<open>U+03BC GREEK SMALL LETTER MU\<close>
  "greek_mu = [CHR 0xCE, CHR 0xBC]"

definition a_circumflex :: string where
  \<comment> \<open>U+00C2, the first half of a mis-decoded micro sign\<close>
  "a_circumflex = [CHR 0xC3, CHR 0x82]"

definition lower_char :: "char \<Rightarrow> char" where
  "lower_char c =
     (case map_of (zip ''ABCDEFGHIJKLMNOPQRSTUVWXYZ'' ''abcdefghijklmnopqrstuvwxyz'') c of
        Some d \<Rightarrow> d
      | None \<Rightarrow> c)"

definition upper_char :: "char \<Rightarrow> char" where
  "upper_char c =
     (case map_of (zip ''abcdefghijklmnopqrstuvwxyz'' ''ABCDEFGHIJKLMNOPQRSTUVWXYZ'') c of
        Some d \<Rightarrow> d
      | None \<Rightarrow> c)"

definition py_lower :: "string \<Rightarrow> string" where
  "py_lower s = map lower_char s"

definition py_upper :: "string \<Rightarrow> string" where
  "py_upper s = map upper_char s"

definition is_space :: "char \<Rightarrow> bool" where
  \<comment> \<open>the ASCII characters for which \<open>str.isspace\<close> holds: TAB, LF, VT, FF, CR,
      FS, GS, RS, US and SPACE\<close>
  "is_space c =
     (c \<in> set [CHR 0x09, CHR 0x0A, CHR 0x0B, CHR 0x0C, CHR 0x0D,
                CHR 0x1C, CHR 0x1D, CHR 0x1E, CHR 0x1F, CHR 0x20])"

definition py_strip :: "string \<Rightarrow> string" where
  "py_strip s = rev (dropWhile is_space (rev (dropWhile is_space s)))"

fun py_in :: "string \<Rightarrow> string \<Rightarrow> bool" where
  \<comment> \<open>\<open>sub in s\<close>\<close>
  "py_in sub [] = (sub = [])"
| "py_in sub (c # cs) = (prefix sub (c # cs) \<or> py_in sub cs)"

fun replace_from :: "nat \<Rightarrow> string \<Rightarrow> string \<Rightarrow> string \<Rightarrow> string" where
  \<comment> \<open>left-to-right, non-overlapping replacement of a non-empty \<open>old\<close>; the counter is
      the number of characters of the current occurrence still to skip\<close>
  "replace_from k old new [] = []"
| "replace_from 0 old new (c # cs) =
     (if prefix old (c # cs) then new @ replace_from (length old - 1) old new cs
      else c # replace_from 0 old new cs)"
| "replace_from (Suc k) old new (c # cs) = replace_from k old new cs"

definition py_replace :: "string \<Rightarrow> string \<Rightarrow> string \<Rightarrow> string" where
  \<comment> \<open>\<open>s.replace(old, new)\<close>; an empty \<open>old\<close> matches before every character and at
      the end\<close>
  "py_replace old new s =
     (if old = [] then new @ concat (map (\<lambda>c. c # new) s)
      else replace_from 0 old new s)"

section \<open>utils.py: header normalisation\<close>

definition normalize_unit :: "string \<Rightarrow> string" where
  "normalize_unit unit =
     py_replace ''CISPR.AVG-Lim.Avg'' ''CISPR.AVG-Limit Avg''
      (py_replace ''Q-Peak-Lim.Q-Peak'' ''Q-Peak-Limit Q-Peak''
       (py_replace ''Peak-Lim.Peak'' ''Peak-Limit Peak''
        (py_replace ''CISPR.AVG'' ''CISPR Avg''
         (py_replace ''Lim.Q-Peak'' ''Limit Q-Peak''
          (py_replace ''Lim.Peak'' ''Limit Peak''
           (py_replace ''Lim.Avg'' ''Limit Avg''
            (py_replace (''dB'' @ greek_mu @ ''V'') (''dB'' @ micro @ ''V'')
             (py_replace (a_circumflex @ micro) micro unit))))))))"

definition dBuV_m :: string where
  \<comment> \<open>the unit suffix \<open>(dBuV/m)\<close> with the micro sign\<close>
  "dBuV_m = ''(dB'' @ micro @ ''V/m)''"

definition priority_mappings :: "(string \<times> string) list" where
  "priority_mappings =
     [(''cispr avg-limit avg'', ''Margin (dB)''),
      (''peak-limit peak'', ''Margin (dB)''),
      (''q-peak-limit q-peak'', ''Margin (dB)''),
      (''peak-limit'', ''Margin (dB)''),
      (''cispr-limit'', ''Margin (dB)''),
      (''q-peak-limit'', ''Margin (dB)''),
      (''limit peak'', ''Limit Peak '' @ dBuV_m),
      (''limit avg'', ''Limit Avg '' @ dBuV_m),
      (''limit q-peak'', ''Limit Q-Peak '' @ dBuV_m),
      (''cispr avg'', ''CISPR.AVG '' @ dBuV_m),
      (''q-peak'', ''Q-Peak '' @ dBuV_m),
      (''peak'', ''Peak '' @ dBuV_m),
      (''cispr'', ''CISPR.AVG '' @ dBuV_m),
      (''frequency'', ''Frequency (MHz)''),
      (''detector'', ''Detector type''),
      (''comment'', ''Comment''),
      (''applied limit'', ''Applied limit''),
      (''margin'', ''Margin (dB)''),
      (''antenna position'', ''Antenna Position''),
      (''polarization'', ''Polarization'')]"

fun first_match :: "(string \<times> string) list \<Rightarrow> string \<Rightarrow> string option" where
  \<comment> \<open>the \<open>for key, std in priority_mappings\<close> loop with its early return\<close>
  "first_match [] h_clean = None"
| "first_match ((key, std) # rest) h_clean =
     (if py_in key h_clean then Some std else first_match rest h_clean)"

definition normalize_header :: "string \<Rightarrow> string" where
  "normalize_header h =
     (let h_clean = py_lower (py_strip h)
      in case first_match priority_mappings h_clean of
           Some std \<Rightarrow> std
         | None \<Rightarrow> h)"

definition composite_margin_patterns :: "string list" where
  \<comment> \<open>the composite patterns, the first six rules of \<open>priority_mappings\<close>\<close>
  "composite_margin_patterns = map fst (take 6 priority_mappings)"

section \<open>Python values and dictionaries\<close>

text \<open>
  A cell value of a measurement is a float or a string. A float is an IEEE 754 double:
  \<open>Num q\<close> is the finite double whose exact value is the rational \<open>q\<close>, \<open>Num 0\<close> being
  the positive zero, and \<open>Special\<close> holds the four doubles that a rational value does
  not determine: the two infinities, the NaN and the negative zero. \<open>float\<close>, the
  subtraction and \<open>round\<close> round their exact result to the nearest double, ties to even
  (\<open>to_double\<close>). \<open>str\<close> of a finite double is a builtin whose digits the model does
  not fix: it is the parameter \<open>fmt\<close> of every function that formats a number.
  A dictionary is an association list in insertion order; \<open>dict_set\<close> overwrites the
  value of a key in place and appends a new key at the end, as Python does.
\<close>

datatype special_float = PosInf | NegInf | NaN | NegZero

datatype pyval = Num rat | Special special_float | Str string

datatype error = IndexError

type_synonym measurement = "(string \<times> pyval) list"

fun dict_set :: "('k \<times> 'v) list \<Rightarrow> 'k \<Rightarrow> 'v \<Rightarrow> ('k \<times> 'v) list" where
  "dict_set [] k v = [(k, v)]"
| "dict_set ((k', v') # d) k v =
     (if k' = k then (k', v) # d else (k', v') # dict_set d k v)"

definition dict_get :: "('k \<times> 'v) list \<Rightarrow> 'k \<Rightarrow> 'v \<Rightarrow> 'v" where
  \<comment> \<open>\<open>d.get(k, default)\<close>\<close>
  "dict_get d k dflt = (case map_of d k of Some v \<Rightarrow> v | None \<Rightarrow> dflt)"

definition py_str :: "(rat \<Rightarrow> string) \<Rightarrow> pyval \<Rightarrow> string" where
  \<comment> \<open>\<open>str(v)\<close>\<close>
  "py_str fmt v =
     (case v of
        Num r \<Rightarrow> fmt r
      | Special PosInf \<Rightarrow> ''inf''
      | Special NegInf \<Rightarrow> ''-inf''
      | Special NaN \<Rightarrow> ''nan''
      | Special NegZero \<Rightarrow> ''-0.0''
      | Str s \<Rightarrow> s)"

subsection \<open>Rounding to a double\<close>

function bit_length :: "int \<Rightarrow> int" where
  \<comment> \<open>the number of binary digits of a positive integer\<close>
  "bit_length n = (if n \<le> 0 then 0 else 1 + bit_length (n div 2))"
  by pat_completeness auto
termination
  by (relation "measure nat") auto

definition pow2 :: "int \<Rightarrow> rat" where
  "pow2 k = (if 0 \<le> k then 2 ^ nat k else 1 / 2 ^ nat (- k))"

definition floor_log2 :: "rat \<Rightarrow> int" where
  \<comment> \<open>for \<open>0 < a\<close>, the exponent \<open>e\<close> with \<open>2 ^ e \<le> a < 2 ^ (e + 1)\<close>: the quotient of a
      number of \<open>n\<close> bits by one of \<open>d\<close> bits lies between \<open>2 ^ (n - d - 1)\<close> and
      \<open>2 ^ (n - d + 1)\<close>\<close>
  "floor_log2 a =
     (let (n, d) = quotient_of a; k = bit_length n - bit_length d
      in if pow2 k \<le> a then k else k - 1)"

definition round_half_even :: "rat \<Rightarrow> int" where
  "round_half_even q =
     (let f = \<lfloor>q\<rfloor>; d = q - of_int f
      in if d < 1 / 2 then f
         else if 1 / 2 < d then f + 1
         else if even f then f else f + 1)"

definition to_double :: "rat \<Rightarrow> pyval" where
  \<comment> \<open>the double nearest to a rational, ties to even: 53 significant bits, a unit in the
      last place of \<open>2 ^ - 1074\<close> at least; an infinity when the rounded magnitude
      reaches \<open>2 ^ 1024\<close>, a zero of the sign of \<open>q\<close> when it rounds to nothing\<close>
  "to_double q =
     (if q = 0 then Num 0
      else let a = \<bar>q\<bar>;
               e = max (floor_log2 a) (- 1022);
               ulp = pow2 (e - 52);
               m = round_half_even (a / ulp)
           in if 1024 \<le> e \<or> (e = 1023 \<and> m = 2 ^ 53)
              then Special (if 0 < q then PosInf else NegInf)
              else if m = 0 then (if 0 < q then Num 0 else Special NegZero)
              else Num ((if 0 < q then 1 else - 1) * of_int m * ulp))"

definition finite_value :: "pyval \<Rightarrow> rat" where
  \<comment> \<open>the value of a finite float, the negative zero included\<close>
  "finite_value x = (case x of Num q \<Rightarrow> q | _ \<Rightarrow> 0)"

definition float_sub :: "pyval \<Rightarrow> pyval \<Rightarrow> pyval" where
  \<comment> \<open>\<open>a - b\<close> on floats: an exact zero is negative only for \<open>-0.0 - 0.0\<close>\<close>
  "float_sub a b =
     (if a = Special NaN \<or> b = Special NaN then Special NaN
      else if a = Special PosInf
      then (if b = Special PosInf then Special NaN else Special PosInf)
      else if a = Special NegInf
      then (if b = Special NegInf then Special NaN else Special NegInf)
      else if b = Special PosInf then Special NegInf
      else if b = Special NegInf then Special PosInf
      else if finite_value a = finite_value b
      then (if a = Special NegZero \<and> b = Num 0 then Special NegZero else Num 0)
      else to_double (finite_value a - finite_value b))"

definition round2 :: "pyval \<Rightarrow> pyval" where
  \<comment> \<open>\<open>round(x, 2)\<close> on a float: the double nearest to the exact value of \<open>x\<close> rounded to
      hundredths, ties to even; a result of zero keeps the sign of \<open>x\<close>; infinities, NaN
      and the negative zero are returned as they are\<close>
  "round2 x =
     (case x of
        Num q \<Rightarrow>
          (let r = of_int (round_half_even (q * 100)) / 100
           in if r = 0 then (if q < 0 then Special NegZero else Num 0) else to_double r)
      | _ \<Rightarrow> x)"

subsection \<open>The builtin float()\<close>

definition is_digit :: "char \<Rightarrow> bool" where
  "is_digit c = (c \<in> set ''0123456789'')"

definition digit_value :: "char \<Rightarrow> int" where
  "digit_value c = (of_char c :: int) - 48"

definition digits_value :: "string \<Rightarrow> int" where
  \<comment> \<open>the number written by the digits of a group, its underscores dropped\<close>
  "digits_value ds = foldl (\<lambda>n c. 10 * n + digit_value c) 0 (filter is_digit ds)"

fun digit_group :: "string \<Rightarrow> bool" where
  \<comment> \<open>one or more digits, single underscores allowed between two digits\<close>
  "digit_group [] = False"
| "digit_group [c] = is_digit c"
| "digit_group (c # d # cs) =
     (is_digit c \<and> (if d = CHR ''_'' then digit_group cs else digit_group (d # cs)))"

definition parse_mantissa :: "string \<Rightarrow> (int \<times> nat) option" where
  \<comment> \<open>\<open>digits\<close>, \<open>digits.\<close>, \<open>.digits\<close> or \<open>digits.digits\<close>: all digits as one number,
      and how many of them follow the point\<close>
  "parse_mantissa s =
     (let ip = takeWhile (\<lambda>c. c \<noteq> CHR ''.'') s;
          r = dropWhile (\<lambda>c. c \<noteq> CHR ''.'') s
      in case r of
           [] \<Rightarrow> if digit_group ip then Some (digits_value ip, 0) else None
         | _ # fp \<Rightarrow>
             if (ip = [] \<or> digit_group ip) \<and> (fp = [] \<or> digit_group fp)
                \<and> \<not> (ip = [] \<and> fp = [])
             then Some (digits_value (ip @ fp), length (filter is_digit fp))
             else None)"

definition strip_sign :: "string \<Rightarrow> bool \<times> string" where
  "strip_sign s =
     (case s of
        [] \<Rightarrow> (False, [])
      | c # cs \<Rightarrow> if c = CHR ''-'' then (True, cs)
                  else if c = CHR ''+'' then (False, cs)
                  else (False, c # cs))"

definition parse_exponent :: "string \<Rightarrow> int option" where
  "parse_exponent s =
     (let (neg, ds) = strip_sign s
      in if digit_group ds
         then Some (if neg then - digits_value ds else digits_value ds)
         else None)"

definition scale10 :: "rat \<Rightarrow> int \<Rightarrow> rat" where
  "scale10 x e = (if 0 \<le> e then x * 10 ^ nat e else x / 10 ^ nat (- e))"

definition parse_decimal :: "string \<Rightarrow> rat option" where
  \<comment> \<open>the exact value of an unsigned decimal literal with optional point and exponent\<close>
  "parse_decimal u =
     (let is_e = (\<lambda>c. c = CHR ''e'' \<or> c = CHR ''E'');
          m = takeWhile (\<lambda>c. \<not> is_e c) u;
          r = dropWhile (\<lambda>c. \<not> is_e c) u
      in case parse_mantissa m of
           None \<Rightarrow> None
         | Some (n, fd) \<Rightarrow>
             (case (case r of [] \<Rightarrow> Some 0 | _ # ex \<Rightarrow> parse_exponent ex) of
                None \<Rightarrow> None
              | Some e \<Rightarrow> Some (scale10 (of_int n) (e - int fd))))"

definition is_c_space :: "char \<Rightarrow> bool" where
  \<comment> \<open>the white space that \<open>float\<close> strips from an ASCII string: TAB, LF, VT, FF, CR and
      SPACE, without the separators FS, GS, RS and US that \<open>str.strip\<close> also removes\<close>
  "is_c_space c = (c \<in> set [CHR 0x09, CHR 0x0A, CHR 0x0B, CHR 0x0C, CHR 0x0D, CHR 0x20])"

definition float_of_string :: "string \<Rightarrow> pyval option" where
  \<comment> \<open>\<open>float(s)\<close>: white space stripped, an optional sign, then \<open>inf\<close>, \<open>infinity\<close> or
      \<open>nan\<close> in any case, or a decimal literal, which is rounded to the nearest double;
      \<open>None\<close> is ValueError. White space and digits are the ASCII ones: in a string
      with other characters Python also accepts the white space and the decimal digits
      of Unicode.\<close>
  "float_of_string s =
     (let (neg, u) = strip_sign (rev (dropWhile is_c_space (rev (dropWhile is_c_space s))))
      in if py_lower u = ''inf'' \<or> py_lower u = ''infinity''
         then Some (Special (if neg then NegInf else PosInf))
         else if py_lower u = ''nan'' then Some (Special NaN)
         else (case parse_decimal u of
                 None \<Rightarrow> None
               | Some a \<Rightarrow>
                   Some (if a = 0 then (if neg then Special NegZero else Num 0)
                         else to_double (if neg then - a else a))))"

definition py_float :: "pyval \<Rightarrow> pyval option" where
  \<comment> \<open>\<open>float(v)\<close> of a stored value: a float is returned as it is\<close>
  "py_float v = (case v of Str s \<Rightarrow> float_of_string s | _ \<Rightarrow> Some v)"

definition clean_decimal :: "string \<Rightarrow> pyval" where
  "clean_decimal value =
     (case float_of_string (py_strip (py_replace '','' ''.'' value)) of
        Some x \<Rightarrow> x
      | None \<Rightarrow> Str (py_strip value))"

section \<open>parser\_mod.py: the document and its tables\<close>

text \<open>
  A document is the list of its tables in document order, a table the list of its rows,
  a row the list of its cell texts.
\<close>

type_synonym row = "string list"
type_synonym table = "row list"
type_synonym document = "table list"

record configuration =
  sample_id :: string
  config_name :: string
  full_name :: string

fun split_char :: "char \<Rightarrow> string \<Rightarrow> string list" where
  \<comment> \<open>\<open>s.split(sep)\<close> for a one-character separator\<close>
  "split_char sep [] = [[]]"
| "split_char sep (c # cs) =
     (if c = sep then [] # split_char sep cs
      else (case split_char sep cs of
              [] \<Rightarrow> [[c]]
            | p # ps \<Rightarrow> (c # p) # ps))"

fun py_join :: "string \<Rightarrow> string list \<Rightarrow> string" where
  "py_join sep [] = []"
| "py_join sep [p] = p"
| "py_join sep (p # q # ps) = p @ sep @ py_join sep (q # ps)"

definition sample_id_core :: "string \<Rightarrow> bool" where
  \<comment> \<open>the whole string is \<open>CRE2-\d{4}-TP\d{3}-\d{2}\<close>, with \<open>\d\<close> an ASCII digit
      (Python's \<open>\d\<close> also accepts the decimal digits of other scripts)\<close>
  "sample_id_core s =
     (length s = 18
      \<and> take 5 s = ''CRE2-''
      \<and> list_all is_digit (take 4 (drop 5 s))
      \<and> take 3 (drop 9 s) = ''-TP''
      \<and> list_all is_digit (take 3 (drop 12 s))
      \<and> take 1 (drop 15 s) = ''-''
      \<and> list_all is_digit (drop 16 s))"

definition re_match_sample_id :: "string \<Rightarrow> bool" where
  \<comment> \<open>\<open>re.match(r'^CRE2-\d{4}-TP\d{3}-\d{2}$', s)\<close>: \<open>$\<close> also matches just before
      a line feed that ends the string\<close>
  "re_match_sample_id s =
     (sample_id_core s \<or> (sample_id_core (take 18 s) \<and> drop 18 s = [CHR 0x0A]))"

fun re_search_sample_id :: "string \<Rightarrow> string option" where
  \<comment> \<open>\<open>re.search(r'CRE2-\d{4}-TP\d{3}-\d{2}', s)\<close>: the leftmost match\<close>
  "re_search_sample_id [] = None"
| "re_search_sample_id (c # cs) =
     (if sample_id_core (take 18 (c # cs)) then Some (take 18 (c # cs))
      else re_search_sample_id cs)"

definition name_test_rows :: "document \<Rightarrow> string list" where
  \<comment> \<open>the stripped value cells of the rows that both discovery functions look at: at
      least two cells, \<open>name test:\<close> in the lower-cased key cell, a non-empty value\<close>
  "name_test_rows doc =
     concat (map (\<lambda>table.
       concat (map (\<lambda>cells.
         (case cells of
            c0 # c1 # _ \<Rightarrow>
              (let key = py_lower (py_strip c0); value = py_strip c1
               in if py_in ''name test:'' key \<and> value \<noteq> [] then [value] else [])
          | _ \<Rightarrow> [])) table)) doc)"

definition extract_all_sample_ids :: "document \<Rightarrow> string set" where
  "extract_all_sample_ids doc =
     fold (\<lambda>value sample_ids.
        (let sid = (case split_char CHR ''_'' value of [] \<Rightarrow> [] | p # _ \<Rightarrow> p)
         in if re_match_sample_id sid then insert sid sample_ids
            else if py_in ''CRE2-2025-TP002'' sid
            then (case re_search_sample_id sid of
                    Some m \<Rightarrow> insert m sample_ids
                  | None \<Rightarrow> sample_ids)
            else sample_ids))
       (name_test_rows doc) {}"

definition extract_all_configurations :: "document \<Rightarrow> configuration list" where
  "extract_all_configurations doc =
     concat (map (\<lambda>value.
        (case split_char CHR ''_'' value of
           p # q # ps \<Rightarrow>
             if re_match_sample_id p
             then [\<lparr>sample_id = p, config_name = py_join ''_'' (q # ps), full_name = value\<rparr>]
             else []
         | _ \<Rightarrow> [])) (name_test_rows doc))"

subsection \<open>Rows of one measurement table\<close>

definition mesure_key :: string where
  "mesure_key = ''Mesure (dB'' @ micro @ ''V/m)''"

definition limite_key :: string where
  "limite_key = ''Limite (dB'' @ micro @ ''V/m)''"

definition set_mesure :: "measurement \<Rightarrow> string \<Rightarrow> string \<Rightarrow> measurement" where
  \<comment> \<open>the three assignments of a measurement column\<close>
  "set_mesure row_dict detector val =
     dict_set (dict_set (dict_set row_dict mesure_key (clean_decimal val))
                 ''Detector type'' (Str detector))
       ''Section'' (Str detector)"

definition map_column :: "measurement \<Rightarrow> string \<Rightarrow> string \<Rightarrow> measurement" where
  \<comment> \<open>the \<open>if/elif\<close> chain on one normalised header \<open>h\<close> and its cell \<open>val\<close>\<close>
  "map_column row_dict h val =
     (let h_low = py_lower h
      in if py_in ''frequency'' h_low
         then dict_set row_dict ''Frequency (MHz)'' (clean_decimal val)
         else if h_low = ''sr'' \<or> py_strip h_low = ''sr''
         then dict_set row_dict ''S R'' (clean_decimal val)
         else if py_in ''cispr'' h_low \<and> py_in ''avg'' h_low \<and> \<not> py_in ''lim'' h_low
         then set_mesure row_dict ''CISPR.AVG'' val
         else if py_in ''q-peak'' h_low \<and> \<not> py_in ''lim'' h_low
         then set_mesure row_dict ''Q-Peak'' val
         else if py_in ''peak'' h_low \<and> \<not> py_in ''lim'' h_low
                 \<and> \<not> py_in ''q-peak'' h_low \<and> \<not> py_in ''-'' h_low
         then set_mesure row_dict ''Peak'' val
         else if (py_in ''lim'' h_low \<or> py_in ''limit'' h_low)
                 \<and> (py_in ''avg'' h_low \<or> py_in ''peak'' h_low \<or> py_in ''q-peak'' h_low)
         then dict_set row_dict limite_key (clean_decimal val)
         else if py_in ''margin'' h_low
                 \<or> (py_in ''-'' h_low
                     \<and> (py_in ''peak'' h_low \<or> py_in ''avg'' h_low \<or> py_in ''q-peak'' h_low))
         then dict_set row_dict ''Margin (dB)'' (clean_decimal val)
         else if py_in ''pol'' h_low
         then dict_set row_dict ''Polarization'' (Str val)
         else if py_in ''corr'' h_low
         then dict_set row_dict ''Correction (dB)'' (clean_decimal val)
         else dict_set row_dict h (Str val))"

fun fill_row :: "measurement \<Rightarrow> string list \<Rightarrow> string list \<Rightarrow> measurement" where
  \<comment> \<open>\<open>for i, h in enumerate(headers)\<close>, a missing cell read as the empty string\<close>
  "fill_row row_dict [] values = row_dict"
| "fill_row row_dict (h # hs) [] = fill_row (map_column row_dict h []) hs []"
| "fill_row row_dict (h # hs) (v # vs) = fill_row (map_column row_dict h v) hs vs"

definition initial_row :: "string \<Rightarrow> measurement" where
  "initial_row sid = [(''Sample ID'', Str sid), (''Comment'', Str ''-''), (''Section'', Str ''-'')]"

definition extract_row :: "string list \<Rightarrow> string \<Rightarrow> row \<Rightarrow> measurement list" where
  \<comment> \<open>one data row: nothing for a row whose cells are all blank\<close>
  "extract_row headers sid cells =
     (let values = map py_strip cells
      in if list_ex (\<lambda>v. v \<noteq> []) values
         then [fill_row (initial_row sid) headers values]
         else [])"

definition measurement_keywords :: "string list" where
  "measurement_keywords = [''frequency'', ''cispr'', ''peak'', ''q-peak'', ''lim'', ''margin'']"

definition extract_measurements_from_table :: "table \<Rightarrow> string \<Rightarrow> measurement list" where
  "extract_measurements_from_table table sid =
     (case table of
        header_row # data_row # data_rows \<Rightarrow>
          (let headers = map (\<lambda>c. normalize_header (normalize_unit (py_strip c))) header_row
           in if list_ex (\<lambda>h. list_ex (\<lambda>kw. py_in kw (py_lower h)) measurement_keywords) headers
              then concat (map (extract_row headers sid) (data_row # data_rows))
              else [])
      | _ \<Rightarrow> [])"

subsection \<open>Association of measurement tables with a configuration\<close>

definition table_text :: "table \<Rightarrow> string" where
  \<comment> \<open>\<open>" ".join([cell.text for row in table.rows for cell in row.cells])\<close>\<close>
  "table_text table = py_join '' '' (concat table)"

definition is_target :: "string \<Rightarrow> table \<Rightarrow> bool" where
  "is_target cfg table =
     (py_in ''name test:'' (py_lower (table_text table)) \<and> py_in cfg (table_text table))"

fun find_target :: "string \<Rightarrow> document \<Rightarrow> nat option" where
  \<comment> \<open>the index of the first table that names the configuration\<close>
  "find_target cfg [] = None"
| "find_target cfg (t # ts) =
     (if is_target cfg t then Some 0 else map_option Suc (find_target cfg ts))"

definition params_keywords :: "string list" where
  "params_keywords =
     [''Sample:'', ''Project:'', ''Operator:'', ''Test Configuration:'', ''Operating mode:'']"

definition table_keywords :: "string list" where
  "table_keywords =
     [''Frequency'', ''CISPR'', ''Peak'', ''Q-Peak'', ''Lim.Avg'', ''Lim.Q-Peak'', ''Lim.Peak'']"

definition has_keyword :: "string list \<Rightarrow> string list \<Rightarrow> bool" where
  \<comment> \<open>\<open>any(keyword in h for h in check_headers for keyword in keywords)\<close>\<close>
  "has_keyword keywords check_headers =
     list_ex (\<lambda>h. list_ex (\<lambda>keyword. py_in keyword h) keywords) check_headers"

definition is_params_table :: "string list \<Rightarrow> bool" where
  "is_params_table check_headers = has_keyword params_keywords check_headers"

definition is_measurement_table :: "string list \<Rightarrow> bool" where
  "is_measurement_table check_headers = has_keyword table_keywords check_headers"

definition measure_key :: "(rat \<Rightarrow> string) \<Rightarrow> measurement \<Rightarrow> string" where
  \<comment> \<open>the f-string \<open>{freq}_{mes}\<close>\<close>
  "measure_key fmt m =
     py_str fmt (dict_get m ''Frequency (MHz)'' (Str [])) @ ''_''
       @ py_str fmt (dict_get m mesure_key (Str []))"

fun add_measurements ::
  "(rat \<Rightarrow> string) \<Rightarrow> measurement list \<Rightarrow> measurement list \<Rightarrow> measurement list" where
  \<comment> \<open>the inner loop: append every row whose key is not yet among the
      accumulated ones\<close>
  "add_measurements fmt measurements [] = measurements"
| "add_measurements fmt measurements (meas # rest) =
     (if measure_key fmt meas \<notin> set (map (measure_key fmt) measurements)
      then add_measurements fmt (measurements @ [meas]) rest
      else add_measurements fmt measurements rest)"

fun scan_back ::
  "(rat \<Rightarrow> string) \<Rightarrow> string \<Rightarrow> table list \<Rightarrow> measurement list
     \<Rightarrow> error + measurement list" where
  \<comment> \<open>the loop \<open>for check_idx in range(target_table_idx - 1, -1, -1)\<close>, over the tables
      in the order the loop visits them; a table without rows makes \<open>rows[0]\<close> raise\<close>
  "scan_back fmt sid [] measurements = Inr measurements"
| "scan_back fmt sid (check_table # earlier) measurements =
     (case check_table of
        [] \<Rightarrow> Inl IndexError
      | row0 # _ \<Rightarrow>
          (let check_headers = map py_strip row0
           in if is_params_table check_headers then Inr measurements
              else if is_measurement_table check_headers
              then scan_back fmt sid earlier
                     (add_measurements fmt measurements
                        (extract_measurements_from_table check_table sid))
              else Inr measurements))"

definition extract_measurements_for_configuration ::
  "(rat \<Rightarrow> string) \<Rightarrow> document \<Rightarrow> string \<Rightarrow> string \<Rightarrow> error + measurement list" where
  "extract_measurements_for_configuration fmt doc sid cfg =
     (case find_target cfg doc of
        None \<Rightarrow> Inr []
      | Some target_table_idx \<Rightarrow> scan_back fmt sid (rev (take target_table_idx doc)) [])"

section \<open>rules.py: the conformity rules\<close>

definition lower_keys :: "measurement \<Rightarrow> (string \<times> string) list" where
  \<comment> \<open>\<open>{k.lower(): k for k in m.keys()}\<close>\<close>
  "lower_keys m = fold (\<lambda>k keys. dict_set keys (py_lower k) k) (map fst m) []"

definition find_col :: "(string \<Rightarrow> bool) \<Rightarrow> measurement \<Rightarrow> string option" where
  \<comment> \<open>\<open>next((keys[k] for k in keys if p(k)), None)\<close>\<close>
  "find_col p m =
     (case filter (\<lambda>(k, orig). p k) (lower_keys m) of
        [] \<Rightarrow> None
      | (k, orig) # _ \<Rightarrow> Some orig)"

definition col_mesure :: "measurement \<Rightarrow> string option" where
  "col_mesure m = find_col (\<lambda>k. py_in ''cispr'' k \<or> py_in ''mesure'' k) m"

definition col_limite :: "measurement \<Rightarrow> string option" where
  "col_limite m = find_col (\<lambda>k. py_in ''limit'' k \<or> py_in ''limite'' k) m"

definition existing_margin :: "measurement \<Rightarrow> pyval" where
  \<comment> \<open>\<open>m.get("Margin (dB)", "N/A")\<close>\<close>
  "existing_margin m = dict_get m ''Margin (dB)'' (Str ''N/A'')"

definition compute_marge :: "measurement \<Rightarrow> pyval" where
  \<comment> \<open>the margin of one row; every exception inside the \<open>try\<close> falls back to the
      existing margin\<close>
  "compute_marge m =
     (case (col_mesure m, col_limite m) of
        (Some cm, Some cl) \<Rightarrow>
          if cm \<noteq> [] \<and> cl \<noteq> []
          then (case (map_of m cm, map_of m cl) of
                  (Some vm, Some vl) \<Rightarrow>
                    (case (py_float vm, py_float vl) of
                       (Some mesure, Some limite) \<Rightarrow> round2 (float_sub limite mesure)
                     | _ \<Rightarrow> existing_margin m)
                | _ \<Rightarrow> existing_margin m)
          else existing_margin m
      | _ \<Rightarrow> existing_margin m)"

definition conformity_of :: "pyval \<Rightarrow> string" where
  \<comment> \<open>OK for a float that is \<open>>= 0\<close>, NOK for any other float (the NaN included), a dash
      for a string\<close>
  "conformity_of marge =
     (case marge of
        Num x \<Rightarrow> if 0 \<le> x then ''OK'' else ''NOK''
      | Special x \<Rightarrow> if x = PosInf \<or> x = NegZero then ''OK'' else ''NOK''
      | Str _ \<Rightarrow> ''-'')"

definition process_row :: "measurement \<Rightarrow> measurement" where
  "process_row m =
     (let marge = compute_marge m
      in dict_set (dict_set (dict_set m ''Margin (dB)'' marge)
                     ''Overtaking (dB)'' (Str ''-''))
           ''Conformity'' (Str (conformity_of marge)))"

definition process_data :: "measurement list \<Rightarrow> measurement list" where
  "process_data measurements = map process_row measurements"

record section_summary =
  Section :: pyval
  NbLines :: nat
  NbFAIL :: nat
  Verdict :: string

definition detector_of :: "measurement \<Rightarrow> pyval" where
  "detector_of r = dict_get r ''Detector type'' (Str ''Unknown'')"

definition is_fail :: "(rat \<Rightarrow> string) \<Rightarrow> measurement \<Rightarrow> bool" where
  \<comment> \<open>\<open>str(rr.get("Conformity", "")).upper() == "NOK"\<close>\<close>
  "is_fail fmt rr = (py_upper (py_str fmt (dict_get rr ''Conformity'' (Str []))) = ''NOK'')"

fun setdefault_append :: "('k \<times> 'v list) list \<Rightarrow> 'k \<Rightarrow> 'v \<Rightarrow> ('k \<times> 'v list) list" where
  \<comment> \<open>\<open>sections.setdefault(sec, []).append(r)\<close>\<close>
  "setdefault_append [] sec r = [(sec, [r])]"
| "setdefault_append ((k, rows) # d) sec r =
     (if k = sec then (k, rows @ [r]) # d else (k, rows) # setdefault_append d sec r)"

definition group_sections :: "measurement list \<Rightarrow> (pyval \<times> measurement list) list" where
  "group_sections processed_rows =
     fold (\<lambda>r sections. setdefault_append sections (detector_of r) r) processed_rows []"

fun summarise ::
  "(rat \<Rightarrow> string) \<Rightarrow> (pyval \<times> measurement list) list \<Rightarrow> section_summary list \<Rightarrow> bool
     \<Rightarrow> section_summary list \<times> bool" where
  \<comment> \<open>the loop over \<open>sections.items()\<close>, carrying \<open>summary\<close> and \<open>all_pass\<close>\<close>
  "summarise fmt [] summary all_pass = (summary, all_pass)"
| "summarise fmt ((sec, rows) # rest) summary all_pass =
     (let fails = length (filter (is_fail fmt) rows);
          verdict = (if fails = 0 then ''OK'' else ''NOK'')
      in summarise fmt rest
           (summary @ [\<lparr>Section = sec, NbLines = length rows, NbFAIL = fails,
                         Verdict = verdict\<rparr>])
           (all_pass \<and> verdict = ''OK''))"

definition compute_section_and_global ::
  "(rat \<Rightarrow> string) \<Rightarrow> measurement list \<Rightarrow> section_summary list \<times> string" where
  "compute_section_and_global fmt processed_rows =
     (let (summary, all_pass) = summarise fmt (group_sections processed_rows) [] True
      in (summary, if all_pass then ''OK'' else ''NOK''))"

section \<open>Notions used by the statements\<close>

definition numeric_value :: "measurement \<Rightarrow> string option \<Rightarrow> pyval option" where
  \<comment> \<open>the number \<open>process_data\<close> reads in the column it has identified: \<open>None\<close> when
      there is no such column or \<open>float\<close> fails on its value\<close>
  "numeric_value m col =
     (case col of
        None \<Rightarrow> None
      | Some c \<Rightarrow> (case map_of m c of None \<Rightarrow> None | Some v \<Rightarrow> py_float v))"

definition is_ascii :: "string \<Rightarrow> bool" where
  "is_ascii s = list_all (\<lambda>c. (of_char c :: int) < 128) s"

definition no_number :: "measurement \<Rightarrow> string \<Rightarrow> bool" where
  \<comment> \<open>the measurement holds no number under the key: no value at all, or a text that
      \<open>float\<close> rejects. The text is taken in ASCII, where \<open>float_of_string\<close> accepts
      exactly the strings that \<open>float\<close> accepts.\<close>
  "no_number m k =
     (case map_of m k of
        None \<Rightarrow> True
      | Some (Str s) \<Rightarrow> is_ascii s \<and> float_of_string s = None
      | Some _ \<Rightarrow> False)"

definition canonical_columns :: "measurement \<Rightarrow> bool" where
  \<comment> \<open>the Measure field is the only one whose name holds \<open>cispr\<close> or \<open>mesure\<close>, the Limit
      field the only one whose name holds \<open>limit\<close>\<close>
  "canonical_columns m =
     list_all (\<lambda>k. (py_in ''cispr'' (py_lower k) \<or> py_in ''mesure'' (py_lower k)
                       \<longrightarrow> k = mesure_key)
                   \<and> (py_in ''limit'' (py_lower k) \<longrightarrow> k = limite_key))
       (map fst m)"

definition rows_of :: "('k \<times> 'v list) list \<Rightarrow> 'k \<Rightarrow> 'v list" where
  \<comment> \<open>the rows grouped under a key, none when the key is absent\<close>
  "rows_of d k = (case map_of d k of None \<Rightarrow> [] | Some rs \<Rightarrow> rs)"

definition summary_of :: "(rat \<Rightarrow> string) \<Rightarrow> pyval \<times> measurement list \<Rightarrow> section_summary" where
  \<comment> \<open>the summary entry that the loop of \<open>compute_section_and_global\<close> appends for one
      section\<close>
  "summary_of fmt = (\<lambda>(sec, rows).
     \<lparr>Section = sec, NbLines = length rows, NbFAIL = length (filter (is_fail fmt) rows),
      Verdict = (if length (filter (is_fail fmt) rows) = 0 then ''OK'' else ''NOK'')\<rparr>)"

section \<open>Example documents\<close>

definition sid02 :: string where
  "sid02 = ''CRE2-2025-TP002-02''"

definition avg_table :: table where
  "avg_table =
     [[''Frequency (MHz)'', ''CISPR.AVG'', ''Lim.Avg'', ''CISPR.AVG-Lim.Avg''],
      [''30.000'', ''40,5'', ''45,0'', ''4,5'']]"

definition name_table :: table where
  "name_table = [[''Name Test:'', ''CRE2-2025-TP002-02_ER_In front of harness RBW 9kHz'']]"

definition scenario_doc :: document where
  "scenario_doc = [avg_table, name_table]"

definition avg_row :: measurement where
  \<comment> \<open>the measurement extracted from the data row of \<open>avg_table\<close>\<close>
  "avg_row =
     [(''Sample ID'', Str sid02), (''Comment'', Str ''-''), (''Section'', Str ''CISPR.AVG''),
      (''Frequency (MHz)'', Num 30), (mesure_key, Num (81 / 2)),
      (''Detector type'', Str ''CISPR.AVG''), (limite_key, Num 45),
      (''Margin (dB)'', Num (9 / 2))]"

definition over_row :: measurement where
  \<comment> \<open>a measure above its limit\<close>
  "over_row =
     [(''Sample ID'', Str sid02), (''Comment'', Str ''-''), (''Section'', Str ''Peak''),
      (''Frequency (MHz)'', Num 30), (mesure_key, Num 50),
      (''Detector type'', Str ''Peak''), (limite_key, Num 45)]"

definition dash_limit_row :: measurement where
  \<comment> \<open>the row of a table whose limit cell holds a dash and whose margin cell holds 4,5\<close>
  "dash_limit_row =
     [(''Sample ID'', Str sid02), (''Comment'', Str ''-''), (''Section'', Str ''CISPR.AVG''),
      (''Frequency (MHz)'', Num 30), (mesure_key, Num (81 / 2)),
      (''Detector type'', Str ''CISPR.AVG''), (limite_key, Str ''-''),
      (''Margin (dB)'', Num (9 / 2))]"

definition no_limit_row :: measurement where
  \<comment> \<open>the row of a table with neither a limit nor a margin column\<close>
  "no_limit_row =
     [(''Sample ID'', Str sid02), (''Comment'', Str ''-''), (''Section'', Str ''Peak''),
      (''Frequency (MHz)'', Num 30), (mesure_key, Num (81 / 2)),
      (''Detector type'', Str ''Peak'')]"

definition prefixed_name_doc :: document where
  \<comment> \<open>a name-test value whose part before the first underscore contains a sample
      identifier but is not one\<close>
  "prefixed_name_doc =
     [[[''Name Test:'', ''RAW CRE2-2025-TP002-02_ER_In front of harness RBW 9kHz'']]]"

definition peak_table :: table where
  \<comment> \<open>a measurement table with neither a polarisation nor a comment column\<close>
  "peak_table =
     [[''Frequency (MHz)'', ''Peak'', ''Lim.Peak''],
      [''30.000'', ''40,5'', ''45,0'']]"

definition applied_limit_table :: table where
  \<comment> \<open>a measure of 47 over its limit of 45, in a table that also has an
      \<open>Applied limit\<close> column\<close>
  "applied_limit_table =
     [[''Frequency (MHz)'', ''Applied limit'', ''Peak'', ''Lim.Peak''],
      [''30.000'', ''50'', ''47,0'', ''45,0'']]"

definition name_table_01 :: table where
  \<comment> \<open>the same configuration name, declared for another sample\<close>
  "name_table_01 = [[''Name Test:'', ''CRE2-2025-TP002-01_ER_In front of harness RBW 9kHz'']]"

definition shared_name_doc :: document where
  \<comment> \<open>two samples tested in the same configuration, each measurement table followed
      by the table that names its test\<close>
  "shared_name_doc = [peak_table, name_table_01, avg_table, name_table]"

definition peak_row :: measurement where
  \<comment> \<open>the measurement extracted from the data row of \<open>peak_table\<close> for sample 02\<close>
  "peak_row =
     [(''Sample ID'', Str sid02), (''Comment'', Str ''-''), (''Section'', Str ''Peak''),
      (''Frequency (MHz)'', Num 30), (mesure_key, Num (81 / 2)),
      (''Detector type'', Str ''Peak''), (limite_key, Num 45)]"

section \<open>The float model on examples\<close>

lemma float_examples:
  "float_of_string ''0.1'' = Some (Num (3602879701896397 / 36028797018963968))"
  "clean_decimal ''40,005'' = Num (5630203221654897 / 140737488355328)"
  "round2 (float_sub (clean_decimal ''40,0'') (clean_decimal ''40,005''))
     = Num (- (5764607523034235 / 576460752303423488))"
  "round2 (clean_decimal ''2,675'') = Num (1503076375634903 / 562949953421312)"
  "round2 (clean_decimal ''-0,001'') = Special NegZero"
  "clean_decimal ''-0,0'' = Special NegZero" "clean_decimal ''0,0'' = Num 0"
  "clean_decimal '' NaN '' = Special NaN" "clean_decimal ''-Infinity'' = Special NegInf"
  "clean_decimal ''1_0,5'' = Num (21 / 2)" "clean_decimal ''Class 5'' = Str ''Class 5''"
  "float_of_string [CHR 0x1C, CHR ''1''] = None"
  "clean_decimal [CHR 0x1C, CHR ''1''] = Num 1"
  by code_simp+

section \<open>Properties of the header normaliser\<close>

lemma first_match_std: "first_match pm h = Some std \<Longrightarrow> std \<in> snd ` set pm"
  by (induction pm h rule: first_match.induct) (auto split: if_splits)

lemma first_match_None:
  "first_match pm h = None \<longleftrightarrow> list_all (\<lambda>(key, std). \<not> py_in key h) pm"
  by (induction pm h rule: first_match.induct) auto

lemma std_labels_fixed:
  "list_all (\<lambda>(key, std). normalize_header std = std) priority_mappings"
  by code_simp

lemma normalize_header_cases:
  "normalize_header h = h \<or> normalize_header h \<in> snd ` set priority_mappings"
  by (auto simp: normalize_header_def Let_def dest: first_match_std split: option.splits)

text \<open>
  C10. \<open>normalize_header\<close> has no failing branch: the model is a total function without
  an error value because \<open>strip\<close>, \<open>lower\<close> and \<open>in\<close> never raise. Applying it twice
  gives the same label as applying it once, for every header string, and a header in
  which none of the ordered patterns occurs is returned unchanged.
\<close>

theorem normalize_header_idempotent:
  "normalize_header (normalize_header h) = normalize_header h
   \<and> (list_all (\<lambda>(key, std). \<not> py_in key (py_lower (py_strip h))) priority_mappings
        \<longrightarrow> normalize_header h = h)"
proof
  show "normalize_header (normalize_header h) = normalize_header h"
    using normalize_header_cases [of h]
  proof
    assume "normalize_header h = h"
    then show ?thesis by simp
  next
    assume "normalize_header h \<in> snd ` set priority_mappings"
    then obtain key where "(key, normalize_header h) \<in> set priority_mappings"
      by auto
    with std_labels_fixed show ?thesis
      by (auto simp: list_all_iff)
  qed
next
  show "list_all (\<lambda>(key, std). \<not> py_in key (py_lower (py_strip h))) priority_mappings
        \<longrightarrow> normalize_header h = h"
    by (simp add: normalize_header_def Let_def first_match_None [symmetric])
qed

theorem normalize_header_idempotent_witness:
  "list_all (\<lambda>(key, std). \<not> py_in key (py_lower (py_strip '' SR ''))) priority_mappings
   \<and> normalize_header '' SR '' = '' SR ''
   \<and> normalize_header (normalize_header '' Lim.Peak '') = normalize_header '' Lim.Peak ''"
proof -
  have "list_all (\<lambda>(key, std). \<not> py_in key (py_lower (py_strip '' SR ''))) priority_mappings"
    by code_simp
  then show ?thesis
    using normalize_header_idempotent [of "'' SR ''"]
      normalize_header_idempotent [of "'' Lim.Peak ''"]
    by blast
qed

text \<open>
  C4. After the substitution pass, the header \<open>CISPR.AVG-Lim.Avg (dB)\<close> is given the
  margin label. In general a header in which one of the six composite margin patterns
  occurs gets the margin label, whatever limit or measurement pattern it also contains,
  because the composite patterns come first in the list; and a header in which
  \<open>q-peak\<close> occurs never gets the Peak label, because \<open>q-peak\<close> is tested before
  \<open>peak\<close>.
\<close>

theorem header_priority_ordering:
  "normalize_header (normalize_unit ''CISPR.AVG-Lim.Avg (dB)'') = ''Margin (dB)''
   \<and> composite_margin_patterns =
       [''cispr avg-limit avg'', ''peak-limit peak'', ''q-peak-limit q-peak'',
        ''peak-limit'', ''cispr-limit'', ''q-peak-limit'']
   \<and> (\<forall>p \<in> set composite_margin_patterns.
         py_in p (py_lower (py_strip h)) \<longrightarrow> normalize_header h = ''Margin (dB)'')
   \<and> (py_in ''q-peak'' (py_lower (py_strip h)) \<longrightarrow> normalize_header h \<noteq> ''Peak '' @ dBuV_m)"
proof (intro conjI)
  show "normalize_header (normalize_unit ''CISPR.AVG-Lim.Avg (dB)'') = ''Margin (dB)''"
    by code_simp
  show pats: "composite_margin_patterns =
       [''cispr avg-limit avg'', ''peak-limit peak'', ''q-peak-limit q-peak'',
        ''peak-limit'', ''cispr-limit'', ''q-peak-limit'']"
    by (simp add: composite_margin_patterns_def priority_mappings_def)
  show "\<forall>p \<in> set composite_margin_patterns.
         py_in p (py_lower (py_strip h)) \<longrightarrow> normalize_header h = ''Margin (dB)''"
    unfolding pats by (auto simp: normalize_header_def priority_mappings_def Let_def)
  show "py_in ''q-peak'' (py_lower (py_strip h)) \<longrightarrow> normalize_header h \<noteq> ''Peak '' @ dBuV_m"
    by (auto simp: normalize_header_def priority_mappings_def dBuV_m_def Let_def)
qed

theorem header_priority_ordering_witness:
  "py_in ''q-peak-limit q-peak'' (py_lower (py_strip ''Q-Peak-Limit Q-Peak (dB)''))
   \<and> normalize_header ''Q-Peak-Limit Q-Peak (dB)'' = ''Margin (dB)''
   \<and> py_in ''q-peak'' (py_lower (py_strip ''Q-Peak''))
   \<and> normalize_header ''Q-Peak'' \<noteq> ''Peak '' @ dBuV_m"
proof -
  have a: "py_in ''q-peak-limit q-peak'' (py_lower (py_strip ''Q-Peak-Limit Q-Peak (dB)''))"
    by code_simp
  have b: "py_in ''q-peak'' (py_lower (py_strip ''Q-Peak''))"
    by code_simp
  have c: "''q-peak-limit q-peak'' \<in> set composite_margin_patterns"
    by (simp add: composite_margin_patterns_def priority_mappings_def)
  show ?thesis
    using a b c header_priority_ordering [of "''Q-Peak-Limit Q-Peak (dB)''"]
      header_priority_ordering [of "''Q-Peak''"]
    by blast
qed

section \<open>Properties of the conformity rules\<close>

lemma map_of_dict_set:
  "map_of (dict_set d k v) k' = (if k' = k then Some v else map_of d k')"
  by (induction d k v rule: dict_set.induct) auto

lemma dict_get_dict_set:
  "dict_get (dict_set d k v) k' dflt = (if k' = k then v else dict_get d k' dflt)"
  by (simp add: dict_get_def map_of_dict_set)

lemma set_dict_set: "set (dict_set d k v) \<subseteq> insert (k, v) (set d)"
  by (induction d k v rule: dict_set.induct) auto

lemma lower_keys_fold:
  "(k, orig) \<in> set (fold (\<lambda>k keys. dict_set keys (py_lower k) k) ks acc)
   \<Longrightarrow> (k, orig) \<in> set acc \<or> (orig \<in> set ks \<and> k = py_lower orig)"
proof (induction ks arbitrary: acc)
  case Nil
  then show ?case by simp
next
  case (Cons a ks)
  from Cons.IH [of "dict_set acc (py_lower a) a"] Cons.prems
  have "(k, orig) \<in> set (dict_set acc (py_lower a) a) \<or> (orig \<in> set ks \<and> k = py_lower orig)"
    by simp
  with set_dict_set [of acc "py_lower a" a] show ?case by auto
qed

lemma lower_keys_entry:
  "(k, orig) \<in> set (lower_keys m) \<Longrightarrow> k = py_lower orig \<and> orig \<in> fst ` set m"
  using lower_keys_fold [of k orig "map fst m" "[]"] by (auto simp: lower_keys_def)

lemma find_col_Some:
  "find_col p m = Some orig \<Longrightarrow> p (py_lower orig) \<and> orig \<in> fst ` set m"
proof -
  assume a: "find_col p m = Some orig"
  then obtain k rest where f: "filter (\<lambda>(k, orig). p k) (lower_keys m) = (k, orig) # rest"
    by (auto simp: find_col_def split: list.splits)
  then have "(k, orig) \<in> set (filter (\<lambda>(k, orig). p k) (lower_keys m))" by simp
  then have "p k" "(k, orig) \<in> set (lower_keys m)" by auto
  with lower_keys_entry [of k orig m] show ?thesis by simp
qed

lemma col_mesure_nonempty: "col_mesure m = Some cm \<Longrightarrow> cm \<noteq> []"
  by (auto simp: col_mesure_def py_lower_def dest!: find_col_Some)

lemma col_limite_nonempty: "col_limite m = Some cl \<Longrightarrow> cl \<noteq> []"
  by (auto simp: col_limite_def py_lower_def dest!: find_col_Some)

lemma compute_marge_fallback:
  assumes "numeric_value m (col_mesure m) = None \<or> numeric_value m (col_limite m) = None"
  shows "compute_marge m = existing_margin m"
  using assms
  by (auto simp: compute_marge_def numeric_value_def split: option.splits)

lemma canonical_col_mesure:
  "canonical_columns m \<Longrightarrow> col_mesure m = Some cm \<Longrightarrow> cm = mesure_key"
  by (auto simp: canonical_columns_def col_mesure_def list_all_iff dest!: find_col_Some)

lemma py_in_append: "py_in (a @ b) s \<Longrightarrow> py_in a s"
  by (induction s) (auto dest: append_prefixD)

lemma py_in_limite: "py_in ''limite'' k \<Longrightarrow> py_in ''limit'' k"
  using py_in_append [of "''limit''" "''e''" k] by simp

lemma canonical_col_limite:
  "canonical_columns m \<Longrightarrow> col_limite m = Some cl \<Longrightarrow> cl = limite_key"
  by (auto simp: canonical_columns_def col_limite_def list_all_iff
      dest!: find_col_Some py_in_limite)

lemma no_number_value: "no_number m k \<Longrightarrow> numeric_value m (Some k) = None"
  by (auto simp: no_number_def numeric_value_def py_float_def
      split: option.splits pyval.splits)

lemma compute_marge_no_number:
  assumes "canonical_columns m"
    and "no_number m mesure_key \<or> no_number m limite_key"
  shows "compute_marge m = existing_margin m"
proof -
  have "numeric_value m (col_mesure m) = None \<or> numeric_value m (col_limite m) = None"
  proof (cases "col_mesure m")
    case None
    then show ?thesis by (simp add: numeric_value_def)
  next
    case cm: (Some cm)
    show ?thesis
    proof (cases "col_limite m")
      case None
      then show ?thesis by (simp add: numeric_value_def)
    next
      case cl: (Some cl)
      from canonical_col_mesure [OF assms(1) cm] canonical_col_limite [OF assms(1) cl]
      have "col_mesure m = Some mesure_key" "col_limite m = Some limite_key"
        using cm cl by simp_all
      with assms(2) no_number_value [of m mesure_key] no_number_value [of m limite_key]
      show ?thesis by auto
    qed
  qed
  then show ?thesis by (rule compute_marge_fallback)
qed

lemma process_row_margin:
  "dict_get (process_row m) ''Margin (dB)'' d = compute_marge m"
  by (simp add: process_row_def Let_def dict_get_dict_set)

lemma process_row_conformity:
  "dict_get (process_row m) ''Conformity'' d = Str (conformity_of (compute_marge m))"
  by (simp add: process_row_def Let_def dict_get_dict_set)

text \<open>
  C1 fails on a measurement that has an \<open>Applied limit\<close> field. The row extracted from
  \<open>applied_limit_table\<close> has the numeric Measure 47.0 and the numeric Limit 45.0, for
  which the margin \<open>round(45.0 - 47.0, 2)\<close> is -2.0 and the verdict NOK. \<open>process_data\<close>
  takes as limit column the first field whose name holds \<open>limit\<close>, which is
  \<open>Applied limit\<close> with the text 50: the margin it stores is 3.0 and the verdict OK.
\<close>

theorem applied_limit_read_as_limit:
  "extract_measurements_from_table applied_limit_table sid02 =
     [[(''Sample ID'', Str ''CRE2-2025-TP002-02''), (''Comment'', Str ''-''),
       (''Section'', Str ''Peak''), (''Frequency (MHz)'', Num 30),
       (''Applied limit'', Str ''50''), (mesure_key, Num 47),
       (''Detector type'', Str ''Peak''), (limite_key, Num 45)]]
   \<and> map (\<lambda>r. (map_of r ''Margin (dB)'', map_of r ''Conformity''))
       (process_data (extract_measurements_from_table applied_limit_table sid02))
     = [(Some (Num 3), Some (Str ''OK''))]"
  unfolding applied_limit_table_def sid02_def by code_simp

text \<open>
  C5, as stated, fails: a row whose limit cell is not a number but which already has a
  numeric margin keeps that margin and gets the verdict of its sign.
\<close>

theorem missing_limit_counterexample:
  "\<not> (numeric_value dash_limit_row (col_limite dash_limit_row) = None
       \<longrightarrow> dict_get (process_data [dash_limit_row] ! 0) ''Margin (dB)'' (Str []) = Str ''N/A''
         \<and> dict_get (process_data [dash_limit_row] ! 0) ''Conformity'' (Str []) = Str ''-'')"
  by code_simp

text \<open>
  C5, amended. Take a measurement in which Measure is the only field with a measure-like
  name and Limit the only field with a limit-like name, and whose Measure or Limit is
  absent or is an ASCII text that \<open>float\<close> rejects. The processed row keeps the margin
  the measurement already had under \<open>Margin (dB)\<close>, and gets \<open>N/A\<close> only when it had
  none; Conformity is \<open>-\<close> when that margin is not a float, OK when it is a float that
  is at least 0 and NOK when it is any other float.
\<close>

theorem missing_value_keeps_margin:
  assumes "i < length measurements"
    and "canonical_columns (measurements ! i)"
    and "no_number (measurements ! i) mesure_key \<or> no_number (measurements ! i) limite_key"
  shows "dict_get (process_data measurements ! i) ''Margin (dB)'' d
           = dict_get (measurements ! i) ''Margin (dB)'' (Str ''N/A'')
    \<and> dict_get (process_data measurements ! i) ''Conformity'' d'
        = Str (case dict_get (measurements ! i) ''Margin (dB)'' (Str ''N/A'') of
                 Num x \<Rightarrow> if 0 \<le> x then ''OK'' else ''NOK''
               | Special x \<Rightarrow> if x = PosInf \<or> x = NegZero then ''OK'' else ''NOK''
               | Str s \<Rightarrow> ''-'')
    \<and> (map_of (measurements ! i) ''Margin (dB)'' = None
         \<longrightarrow> dict_get (process_data measurements ! i) ''Margin (dB)'' d = Str ''N/A''
           \<and> dict_get (process_data measurements ! i) ''Conformity'' d' = Str ''-'')"
proof -
  let ?m = "measurements ! i"
  let ?old = "dict_get ?m ''Margin (dB)'' (Str ''N/A'')"
  have marge: "compute_marge ?m = ?old"
    using assms(2,3) by (simp add: compute_marge_no_number existing_margin_def)
  have a: "dict_get (process_data measurements ! i) ''Margin (dB)'' d = ?old"
    using assms(1) marge by (simp add: process_data_def process_row_margin)
  have b: "dict_get (process_data measurements ! i) ''Conformity'' d'
             = Str (conformity_of ?old)"
    using assms(1) marge by (simp add: process_data_def process_row_conformity)
  have c: "map_of ?m ''Margin (dB)'' = None \<Longrightarrow> ?old = Str ''N/A''"
    by (simp add: dict_get_def)
  show ?thesis
    unfolding a b using c by (auto simp: conformity_of_def split: pyval.splits)
qed

theorem missing_value_keeps_margin_witness:
  "canonical_columns dash_limit_row
   \<and> no_number dash_limit_row limite_key
   \<and> dict_get (process_data [dash_limit_row, no_limit_row] ! 0) ''Margin (dB)'' (Str [])
       = Num (9 / 2)
   \<and> dict_get (process_data [dash_limit_row, no_limit_row] ! 0) ''Conformity'' (Str [])
       = Str ''OK''
   \<and> canonical_columns no_limit_row
   \<and> no_number no_limit_row limite_key
   \<and> map_of no_limit_row ''Margin (dB)'' = None
   \<and> dict_get (process_data [dash_limit_row, no_limit_row] ! 1) ''Margin (dB)'' (Str [])
       = Str ''N/A''
   \<and> dict_get (process_data [dash_limit_row, no_limit_row] ! 1) ''Conformity'' (Str [])
       = Str ''-''"
proof -
  have a: "canonical_columns dash_limit_row" "no_number dash_limit_row limite_key"
    by code_simp+
  have b: "canonical_columns no_limit_row" "no_number no_limit_row limite_key"
    by code_simp+
  have c: "map_of no_limit_row ''Margin (dB)'' = None"
    by code_simp
  have d: "dict_get dash_limit_row ''Margin (dB)'' (Str ''N/A'') = Num (9 / 2)"
    by code_simp
  have e: "dict_get no_limit_row ''Margin (dB)'' (Str ''N/A'') = Str ''N/A''"
    by code_simp
  show ?thesis
    using a b c d e
      missing_value_keeps_margin [of 0 "[dash_limit_row, no_limit_row]" "Str []" "Str []"]
      missing_value_keeps_margin [of 1 "[dash_limit_row, no_limit_row]" "Str []" "Str []"]
    by simp
qed

section \<open>The end-to-end scenario\<close>

text \<open>
  C2. Take the document made of the measurement table (header row and one data row)
  followed by the table that names the test. The configurations discovered in it, each
  with the measurements associated with it and passed through \<open>process_data\<close>, are one
  configuration \<open>ER_In front of harness RBW 9kHz\<close> of sample \<open>CRE2-2025-TP002-02\<close> with
  exactly one measurement: Frequency 30.0, detector CISPR.AVG, Mesure 40.5, Limite 45.0,
  Margin 4.5, Conformity OK, whatever way numbers are formatted.
\<close>

theorem end_to_end_scenario:
  "map (\<lambda>c. (sample_id c, config_name c,
              map_sum id process_data
                (extract_measurements_for_configuration fmt scenario_doc
                   (sample_id c) (config_name c))))
     (extract_all_configurations scenario_doc) =
     [(''CRE2-2025-TP002-02'', ''ER_In front of harness RBW 9kHz'',
       Inr [[(''Sample ID'', Str ''CRE2-2025-TP002-02''), (''Comment'', Str ''-''),
             (''Section'', Str ''CISPR.AVG''), (''Frequency (MHz)'', Num 30),
             (mesure_key, Num (81 / 2)), (''Detector type'', Str ''CISPR.AVG''),
             (limite_key, Num 45), (''Margin (dB)'', Num (9 / 2)),
             (''Overtaking (dB)'', Str ''-''), (''Conformity'', Str ''OK'')]])]"
  unfolding scenario_doc_def avg_table_def name_table_def by code_simp

theorem end_to_end_scenario_witness:
  "map (\<lambda>c. (sample_id c, config_name c,
              map_sum id process_data
                (extract_measurements_for_configuration (\<lambda>r. ''30.0'') scenario_doc
                   (sample_id c) (config_name c))))
     (extract_all_configurations scenario_doc) =
     [(''CRE2-2025-TP002-02'', ''ER_In front of harness RBW 9kHz'',
       Inr [[(''Sample ID'', Str ''CRE2-2025-TP002-02''), (''Comment'', Str ''-''),
             (''Section'', Str ''CISPR.AVG''), (''Frequency (MHz)'', Num 30),
             (mesure_key, Num (81 / 2)), (''Detector type'', Str ''CISPR.AVG''),
             (limite_key, Num 45), (''Margin (dB)'', Num (9 / 2)),
             (''Overtaking (dB)'', Str ''-''), (''Conformity'', Str ''OK'')]])]"
  using end_to_end_scenario [of "\<lambda>r. ''30.0''"] by simp

section \<open>Discovery of configurations and row defaults\<close>

text \<open>
  C7. A name-test value whose part before the first underscore is
  \<open>RAW CRE2-2025-TP002-02\<close> contains a sample identifier without being one.
  \<open>extract_all_configurations\<close> discovers no configuration for it, whereas
  \<open>extract_all_sample_ids\<close> recovers the identifier by pattern search.
\<close>

theorem relaxed_prefix_not_discovered:
  "extract_all_configurations prefixed_name_doc = []
   \<and> extract_all_sample_ids prefixed_name_doc = {''CRE2-2025-TP002-02''}"
  unfolding prefixed_name_doc_def by code_simp

text \<open>
  C9. From a table with neither a polarisation nor a comment column, the row extractor
  builds a measurement with Comment \<open>-\<close> and with no Polarization entry at all.
\<close>

theorem no_default_polarization:
  "map (\<lambda>r. (map_of r ''Comment'', map_of r ''Polarization''))
     (extract_measurements_from_table peak_table sid02) = [(Some (Str ''-''), None)]"
  unfolding peak_table_def sid02_def by code_simp

section \<open>Properties of the section summary\<close>

lemma keys_setdefault_append:
  "map fst (setdefault_append d k r) = (if k \<in> fst ` set d then map fst d else map fst d @ [k])"
  by (induction d k r rule: setdefault_append.induct) auto

lemma map_of_setdefault_append:
  "map_of (setdefault_append d k r) k' =
     (if k' = k then Some (rows_of d k @ [r]) else map_of d k')"
  by (induction d k r rule: setdefault_append.induct) (auto simp: rows_of_def)

lemma distinct_setdefault_append:
  "distinct (map fst d) \<Longrightarrow> distinct (map fst (setdefault_append d k r))"
  by (simp add: keys_setdefault_append)

lemma group_fold:
  "distinct (map fst d) \<Longrightarrow>
     distinct (map fst (fold (\<lambda>r secs. setdefault_append secs (f r) r) rows d))
     \<and> set (map fst (fold (\<lambda>r secs. setdefault_append secs (f r) r) rows d))
         = fst ` set d \<union> f ` set rows
     \<and> (\<forall>k. rows_of (fold (\<lambda>r secs. setdefault_append secs (f r) r) rows d) k
            = rows_of d k @ filter (\<lambda>r. f r = k) rows)"
proof (induction rows arbitrary: d)
  case Nil
  then show ?case by simp
next
  case (Cons r rows)
  let ?d = "setdefault_append d (f r) r"
  have d: "distinct (map fst ?d)" using Cons.prems by (rule distinct_setdefault_append)
  have k: "set (map fst ?d) = insert (f r) (fst ` set d)"
    by (auto simp: keys_setdefault_append)
  have r: "\<And>k. rows_of ?d k = rows_of d k @ (if f r = k then [r] else [])"
    by (auto simp: rows_of_def map_of_setdefault_append)
  from Cons.IH [OF d] k r show ?case
    by auto
qed

lemma group_sections_props:
  "distinct (map fst (group_sections rows))
   \<and> set (map fst (group_sections rows)) = detector_of ` set rows
   \<and> (\<forall>(sec, rs) \<in> set (group_sections rows). rs = filter (\<lambda>r. detector_of r = sec) rows)"
proof -
  have g: "distinct (map fst (group_sections rows))
     \<and> set (map fst (group_sections rows)) = fst ` set [] \<union> detector_of ` set rows
     \<and> (\<forall>k. rows_of (group_sections rows) k = rows_of [] k @ filter (\<lambda>r. detector_of r = k) rows)"
    unfolding group_sections_def
    using group_fold [of "[]" detector_of rows] by simp
  have "rs = filter (\<lambda>r. detector_of r = sec) rows" if "(sec, rs) \<in> set (group_sections rows)" for sec rs
  proof -
    from g that have "map_of (group_sections rows) sec = Some rs" by simp
    then have "rows_of (group_sections rows) sec = rs" by (simp add: rows_of_def)
    with g show ?thesis by (simp add: rows_of_def)
  qed
  with g show ?thesis by auto
qed

lemma summarise_eq:
  "summarise fmt secs summary all_pass =
     (summary @ map (summary_of fmt) secs,
      all_pass \<and> list_all (\<lambda>s. Verdict s = ''OK'') (map (summary_of fmt) secs))"
  by (induction fmt secs summary all_pass rule: summarise.induct)
     (auto simp: summary_of_def Let_def)

lemma compute_section_and_global_eq:
  "compute_section_and_global fmt rows =
     (map (summary_of fmt) (group_sections rows),
      if list_all (\<lambda>s. Verdict s = ''OK'') (map (summary_of fmt) (group_sections rows))
      then ''OK'' else ''NOK'')"
  by (simp add: compute_section_and_global_def summarise_eq)

lemma conformity_of_cases:
  "conformity_of v = ''OK'' \<or> conformity_of v = ''NOK'' \<or> conformity_of v = ''-''"
  by (simp add: conformity_of_def split: pyval.splits)

lemma upper_verdicts:
  "py_upper ''OK'' \<noteq> ''NOK''" "py_upper ''NOK'' = ''NOK''" "py_upper ''-'' \<noteq> ''NOK''"
  by code_simp+

lemma processed_conformity:
  assumes "r \<in> set (process_data ms)"
  shows "dict_get r ''Conformity'' d \<in> {Str ''OK'', Str ''NOK'', Str ''-''}"
    and "is_fail fmt r \<longleftrightarrow> dict_get r ''Conformity'' d = Str ''NOK''"
proof -
  from assms obtain m where r: "r = process_row m" by (auto simp: process_data_def)
  have c: "\<And>d. dict_get r ''Conformity'' d = Str (conformity_of (compute_marge m))"
    unfolding r by (rule process_row_conformity)
  show "dict_get r ''Conformity'' d \<in> {Str ''OK'', Str ''NOK'', Str ''-''}"
    using conformity_of_cases [of "compute_marge m"] by (auto simp: c)
  show "is_fail fmt r \<longleftrightarrow> dict_get r ''Conformity'' d = Str ''NOK''"
    using conformity_of_cases [of "compute_marge m"] upper_verdicts
    by (auto simp: is_fail_def c py_str_def)
qed

text \<open>
  C6. On the rows produced by \<open>process_data\<close>, \<open>compute_section_and_global\<close> reports one
  summary per detector type present, none twice and none missing whatever the verdicts
  of the others. In each summary the row count is the number of rows of that detector
  type, the fail count is the number of them whose Conformity is NOK (every Conformity
  is OK, NOK or \<open>-\<close>, so a row with \<open>-\<close> is counted as a row and never as a fail), and
  the section verdict is OK exactly when the fail count is 0. The global verdict is OK
  exactly when every section verdict is OK.
\<close>

theorem section_and_global_verdicts:
  assumes "compute_section_and_global fmt (process_data ms) = (summary, global_verdict)"
  shows "distinct (map Section summary)
    \<and> set (map Section summary) = detector_of ` set (process_data ms)
    \<and> (\<forall>s \<in> set summary.
          NbLines s = length (filter (\<lambda>r. detector_of r = Section s) (process_data ms))
        \<and> NbFAIL s = length (filter (\<lambda>r. detector_of r = Section s
                                  \<and> dict_get r ''Conformity'' (Str []) = Str ''NOK'')
                              (process_data ms))
        \<and> (Verdict s = ''OK'' \<longleftrightarrow> NbFAIL s = 0)
        \<and> (Verdict s = ''OK'' \<or> Verdict s = ''NOK''))
    \<and> (global_verdict = ''OK'' \<longleftrightarrow> (\<forall>s \<in> set summary. Verdict s = ''OK''))
    \<and> (global_verdict = ''OK'' \<or> global_verdict = ''NOK'')
    \<and> (\<forall>r \<in> set (process_data ms).
          dict_get r ''Conformity'' (Str []) \<in> {Str ''OK'', Str ''NOK'', Str ''-''})"
proof -
  let ?rows = "process_data ms"
  let ?g = "group_sections ?rows"
  from assms have summary: "summary = map (summary_of fmt) ?g"
    by (simp add: compute_section_and_global_eq)
  from assms have gv:
    "global_verdict = (if list_all (\<lambda>s. Verdict s = ''OK'') summary then ''OK'' else ''NOK'')"
    unfolding summary by (simp add: compute_section_and_global_eq)
  have sec: "map Section summary = map fst ?g"
    by (simp add: summary summary_of_def split_def)
  have g: "distinct (map fst ?g)" "set (map fst ?g) = detector_of ` set ?rows"
    "\<And>sec rs. (sec, rs) \<in> set ?g \<Longrightarrow> rs = filter (\<lambda>r. detector_of r = sec) ?rows"
    using group_sections_props [of ?rows] by auto
  have fails: "filter (\<lambda>r. detector_of r = k \<and> is_fail fmt r) ?rows
      = filter (\<lambda>r. detector_of r = k \<and> dict_get r ''Conformity'' (Str []) = Str ''NOK'') ?rows" for k
    by (rule filter_cong) (auto simp: processed_conformity(2) [where d = "Str []"])
  have each: "NbLines s = length (filter (\<lambda>r. detector_of r = Section s) ?rows)
        \<and> NbFAIL s = length (filter (\<lambda>r. detector_of r = Section s
                                  \<and> dict_get r ''Conformity'' (Str []) = Str ''NOK'') ?rows)
        \<and> (Verdict s = ''OK'' \<longleftrightarrow> NbFAIL s = 0)
        \<and> (Verdict s = ''OK'' \<or> Verdict s = ''NOK'')" if "s \<in> set summary" for s
  proof -
    from that obtain k rs where krs: "(k, rs) \<in> set ?g" "s = summary_of fmt (k, rs)"
      by (auto simp: summary)
    from g(3) [OF krs(1)] have rs: "rs = filter (\<lambda>r. detector_of r = k) ?rows" .
    show ?thesis
      unfolding krs(2) summary_of_def by (simp add: rs fails)
  qed
  have glob: "global_verdict = ''OK'' \<longleftrightarrow> (\<forall>s \<in> set summary. Verdict s = ''OK'')"
    by (simp add: gv list_all_iff)
  have gcase: "global_verdict = ''OK'' \<or> global_verdict = ''NOK''"
    by (simp add: gv)
  have d1: "distinct (map Section summary)"
    unfolding sec by (rule g(1))
  have d2: "set (map Section summary) = detector_of ` set ?rows"
    unfolding sec by (rule g(2))
  have all: "\<forall>s \<in> set summary.
          NbLines s = length (filter (\<lambda>r. detector_of r = Section s) ?rows)
        \<and> NbFAIL s = length (filter (\<lambda>r. detector_of r = Section s
                                  \<and> dict_get r ''Conformity'' (Str []) = Str ''NOK'') ?rows)
        \<and> (Verdict s = ''OK'' \<longleftrightarrow> NbFAIL s = 0)
        \<and> (Verdict s = ''OK'' \<or> Verdict s = ''NOK'')"
    using each by blast
  have conf: "\<forall>r \<in> set ?rows.
          dict_get r ''Conformity'' (Str []) \<in> {Str ''OK'', Str ''NOK'', Str ''-''}"
    using processed_conformity(1) by blast
  from d1 d2 all glob gcase conf show ?thesis
    by (intro conjI)
qed

theorem section_and_global_verdicts_witness:
  "compute_section_and_global (\<lambda>r. []) (process_data [over_row, no_limit_row, avg_row])
     = ([\<lparr>Section = Str ''Peak'', NbLines = 2, NbFAIL = 1, Verdict = ''NOK''\<rparr>,
         \<lparr>Section = Str ''CISPR.AVG'', NbLines = 1, NbFAIL = 0, Verdict = ''OK''\<rparr>],
        ''NOK'')
   \<and> set [Str ''Peak'', Str ''CISPR.AVG'']
       = detector_of ` set (process_data [over_row, no_limit_row, avg_row])
   \<and> length (filter (\<lambda>r. detector_of r = Str ''Peak'')
                (process_data [over_row, no_limit_row, avg_row])) = 2
   \<and> length (filter (\<lambda>r. detector_of r = Str ''Peak''
                         \<and> dict_get r ''Conformity'' (Str []) = Str ''NOK'')
                (process_data [over_row, no_limit_row, avg_row])) = 1"
proof -
  have e: "compute_section_and_global (\<lambda>r. []) (process_data [over_row, no_limit_row, avg_row])
     = ([\<lparr>Section = Str ''Peak'', NbLines = 2, NbFAIL = 1, Verdict = ''NOK''\<rparr>,
         \<lparr>Section = Str ''CISPR.AVG'', NbLines = 1, NbFAIL = 0, Verdict = ''OK''\<rparr>],
        ''NOK'')"
    by code_simp
  show ?thesis
    using e section_and_global_verdicts [OF e] by simp
qed

section \<open>Properties of the association of tables with a configuration\<close>

lemma add_measurements_keys:
  "measure_key fmt ` set (add_measurements fmt acc tm)
     = measure_key fmt ` set acc \<union> measure_key fmt ` set tm"
  by (induction fmt acc tm rule: add_measurements.induct) auto

lemma add_measurements_known:
  "measure_key fmt ` set tm \<subseteq> measure_key fmt ` set acc
   \<Longrightarrow> add_measurements fmt acc tm = acc"
  by (induction tm) auto

lemma add_measurements_twice:
  "add_measurements fmt (add_measurements fmt acc tm) tm = add_measurements fmt acc tm"
  by (rule add_measurements_known) (auto simp: add_measurements_keys)

lemma scan_back_twice:
  "scan_back fmt sid (B # B # earlier) acc = scan_back fmt sid (B # earlier) acc"
  by (cases B) (simp_all add: Let_def add_measurements_twice)

lemma scan_back_dup:
  "scan_back fmt sid (xs @ B # B # ys) acc = scan_back fmt sid (xs @ B # ys) acc"
proof (induction xs arbitrary: acc)
  case Nil
  show ?case using scan_back_twice by simp
next
  case (Cons x xs)
  show ?case by (cases x) (simp_all add: Let_def Cons.IH)
qed

lemma find_target_dup:
  "find_target cfg (pre @ B # B # rest) =
     (case find_target cfg (pre @ B # rest) of
        None \<Rightarrow> None
      | Some j \<Rightarrow> if j \<le> length pre then Some j else Some (Suc j))"
  by (induction pre) (auto split: option.splits)

lemma find_target_less: "find_target cfg doc = Some i \<Longrightarrow> i < length doc"
  by (induction doc arbitrary: i) (auto split: if_splits)

lemma extract_dup:
  "extract_measurements_for_configuration fmt (pre @ B # B # rest) sid cfg
     = extract_measurements_for_configuration fmt (pre @ B # rest) sid cfg"
proof (cases "find_target cfg (pre @ B # rest)")
  case None
  then show ?thesis
    by (simp add: extract_measurements_for_configuration_def find_target_dup)
next
  case (Some j)
  show ?thesis
  proof (cases "j \<le> length pre")
    case True
    then show ?thesis
      by (simp add: extract_measurements_for_configuration_def find_target_dup Some)
  next
    case False
    then obtain n where j: "j = Suc (length pre + n)"
      by (metis add_Suc_right less_iff_Suc_add not_le)
    have a: "rev (take (Suc j) (pre @ B # B # rest)) = rev (take n rest) @ B # B # rev pre"
      by (simp add: j)
    have b: "rev (take j (pre @ B # rest)) = rev (take n rest) @ B # rev pre"
      by (simp add: j)
    have l: "find_target cfg (pre @ B # B # rest) = Some (Suc j)"
      using False by (simp add: find_target_dup Some)
    show ?thesis
      by (simp only: extract_measurements_for_configuration_def l Some option.case a b
          scan_back_dup)
  qed
qed

lemma same_key_suppressed:
  assumes "a \<in> set acc"
    and "dict_get r ''Frequency (MHz)'' (Str []) = dict_get a ''Frequency (MHz)'' (Str [])"
    and "dict_get r mesure_key (Str []) = dict_get a mesure_key (Str [])"
  shows "add_measurements fmt acc (r # rest) = add_measurements fmt acc rest"
proof -
  have "measure_key fmt r = measure_key fmt a"
    using assms(2,3) by (simp add: measure_key_def)
  with assms(1) show ?thesis by auto
qed

text \<open>
  C8. A table that occurs twice in a row in the document gives every configuration the
  same measurements, hence the same count, as a single occurrence: adding the rows of a
  table a second time to the accumulated measurements changes nothing, because a row
  whose Frequency and Mesure are those of an accumulated measurement is skipped. The
  key compared is the text of the two values, so the values are the same when they are
  the same float, the sign of a zero included, or the same string.
\<close>

theorem same_table_twice:
  "extract_measurements_for_configuration fmt (pre @ B # B # rest) sid cfg
     = extract_measurements_for_configuration fmt (pre @ B # rest) sid cfg
   \<and> add_measurements fmt
        (add_measurements fmt acc (extract_measurements_from_table B sid))
        (extract_measurements_from_table B sid)
       = add_measurements fmt acc (extract_measurements_from_table B sid)
   \<and> (a \<in> set acc
        \<and> dict_get r ''Frequency (MHz)'' (Str []) = dict_get a ''Frequency (MHz)'' (Str [])
        \<and> dict_get r mesure_key (Str []) = dict_get a mesure_key (Str [])
        \<longrightarrow> add_measurements fmt acc (r # others) = add_measurements fmt acc others)"
  using extract_dup [of fmt pre B rest sid cfg]
    add_measurements_twice [of fmt acc "extract_measurements_from_table B sid"]
    same_key_suppressed [of a acc r fmt others]
  by blast

theorem same_table_twice_witness:
  "extract_measurements_for_configuration (\<lambda>r. []) [avg_table, avg_table, name_table] sid02
      ''ER_In front of harness RBW 9kHz''
     = extract_measurements_for_configuration (\<lambda>r. []) [avg_table, name_table] sid02
         ''ER_In front of harness RBW 9kHz''
   \<and> extract_measurements_for_configuration (\<lambda>r. []) [avg_table, name_table] sid02
         ''ER_In front of harness RBW 9kHz'' = Inr [avg_row]
   \<and> avg_row \<in> set [avg_row]
   \<and> add_measurements (\<lambda>r. []) [avg_row] [avg_row] = [avg_row]"
proof -
  have e: "extract_measurements_for_configuration (\<lambda>r. []) [avg_table, name_table] sid02
         ''ER_In front of harness RBW 9kHz'' = Inr [avg_row]"
    unfolding avg_table_def name_table_def by code_simp
  show ?thesis
    using e
      same_table_twice [where fmt = "\<lambda>r. []" and pre = "[]" and B = avg_table
        and rest = "[name_table]" and sid = sid02
        and cfg = "''ER_In front of harness RBW 9kHz''"
        and acc = "[avg_row]" and a = avg_row and r = avg_row and others = "[]"]
    by simp
qed

text \<open>
  C3. In \<open>shared_name_doc\<close> the configuration \<open>ER_In front of harness RBW 9kHz\<close> is
  declared twice, for sample 01 in table 1 and for sample 02 in table 3. For sample 02
  the function locates table 1, the first table whose text holds the configuration
  name, and scans from table 0: the measurements returned are those of table 0, and
  none comes from table 2, the measurement table that precedes the declaration of
  sample 02.
\<close>

theorem shared_name_wrong_block:
  "extract_all_configurations shared_name_doc =
     [\<lparr>sample_id = ''CRE2-2025-TP002-01'',
       config_name = ''ER_In front of harness RBW 9kHz'',
       full_name = ''CRE2-2025-TP002-01_ER_In front of harness RBW 9kHz''\<rparr>,
      \<lparr>sample_id = ''CRE2-2025-TP002-02'',
       config_name = ''ER_In front of harness RBW 9kHz'',
       full_name = ''CRE2-2025-TP002-02_ER_In front of harness RBW 9kHz''\<rparr>]
   \<and> find_target ''ER_In front of harness RBW 9kHz'' shared_name_doc = Some 1
   \<and> extract_measurements_for_configuration fmt shared_name_doc sid02
        ''ER_In front of harness RBW 9kHz'' = Inr [peak_row]
   \<and> extract_measurements_from_table (shared_name_doc ! 0) sid02 = [peak_row]
   \<and> extract_measurements_from_table (shared_name_doc ! 2) sid02 = [avg_row]"
proof (intro conjI)
  show "extract_all_configurations shared_name_doc =
     [\<lparr>sample_id = ''CRE2-2025-TP002-01'',
       config_name = ''ER_In front of harness RBW 9kHz'',
       full_name = ''CRE2-2025-TP002-01_ER_In front of harness RBW 9kHz''\<rparr>,
      \<lparr>sample_id = ''CRE2-2025-TP002-02'',
       config_name = ''ER_In front of harness RBW 9kHz'',
       full_name = ''CRE2-2025-TP002-02_ER_In front of harness RBW 9kHz''\<rparr>]"
    by code_simp
  show "find_target ''ER_In front of harness RBW 9kHz'' shared_name_doc = Some 1"
    by code_simp
  show "extract_measurements_for_configuration fmt shared_name_doc sid02
        ''ER_In front of harness RBW 9kHz'' = Inr [peak_row]"
    unfolding shared_name_doc_def peak_table_def name_table_01_def avg_table_def
      name_table_def
    by code_simp
  show "extract_measurements_from_table (shared_name_doc ! 0) sid02 = [peak_row]"
    by code_simp
  show "extract_measurements_from_table (shared_name_doc ! 2) sid02 = [avg_row]"
    by code_simp
qed

end
